theory Spec2Isabelle
  imports Complex_Main
begin

section \<open>The bot's store and the broadcast subsystem of \<open>bot.py\<close>\<close>

text \<open>
  The development embeds the parts of \<open>bot.py\<close> that create, run and finalize a
  broadcast, and the admin check.  The SQLite database is an explicit state (a record of
  tables, each a list of rows in store order) that every function takes and returns.
  What the code performs beyond the store (transport calls, log lines, sleeps, replies,
  the start of the background thread) is recorded, in program order, in a list of events.
  The transport and the store's faults are parameters of the run: an oracle says what each
  call of \<open>send_message\<close> does, and whether a statement of the store raises.
\<close>

subsection \<open>Python values\<close>

text \<open>
  A Python \<open>str\<close> is a sequence of code points; a slice \<open>s[:n]\<close> counts code points.
\<close>

type_synonym pystr = "nat list"

text \<open>Truthiness of an \<open>Optional[str]\<close>: \<open>None\<close> and \<open>""\<close> are false.\<close>

definition truthy :: "pystr option \<Rightarrow> bool" where
  "truthy x = (case x of None \<Rightarrow> False | Some s \<Rightarrow> s \<noteq> [])"

text \<open>\<open>sep.join(xs)\<close>.\<close>

fun join :: "pystr \<Rightarrow> pystr list \<Rightarrow> pystr" where
  "join sep [] = []"
| "join sep [x] = x"
| "join sep (x # y # ys) = x @ sep @ join sep (y # ys)"

text \<open>
  The characters \<open>str.isspace\<close> accepts, and \<open>str.strip()\<close>.  The code never calls
  them; they are here to state what "empty after trimming" means.
\<close>

definition py_isspace :: "nat \<Rightarrow> bool" where
  "py_isspace c =
     (c \<in> set [9, 10, 11, 12, 13, 28, 29, 30, 31, 32, 133, 160, 5760,
               8192, 8193, 8194, 8195, 8196, 8197, 8198, 8199, 8200, 8201, 8202,
               8232, 8233, 8239, 8287, 12288])"

definition py_strip :: "pystr \<Rightarrow> pystr" where
  "py_strip s = rev (dropWhile py_isspace (rev (dropWhile py_isspace s)))"

subsection \<open>Configuration\<close>

text \<open>\<open>OWNER_ID: Optional[int] = 8116152355\<close>\<close>

definition OWNER_ID :: "int option" where
  "OWNER_ID = Some 8116152355"

text \<open>
  \<open>BROADCAST_DELAY_SEC = 0.12\<close>, in seconds.  The literal is read as the decimal
  fraction it writes.
\<close>

definition BROADCAST_DELAY_SEC :: rat where
  "BROADCAST_DELAY_SEC = 12 / 100"

subsection \<open>The database: \<open>init_db\<close>\<close>

text \<open>
  One record per table of \<open>init_db\<close> that the embedded functions touch, a field per
  column.  The table \<open>broadcasts\<close> has the five columns below and no other.
\<close>

record user_row =
  u_user_id :: int
  u_username :: pystr
  u_first_name :: pystr
  u_last_name :: pystr
  u_lang_code :: pystr
  u_last_seen :: int

record broadcast_row =
  b_id :: int
  b_ts :: int
  b_from_user :: int
  b_text :: pystr
  b_sent_count :: int

record admin_row =
  a_user_id :: int
  a_added_by :: int
  a_ts :: int

text \<open>
  \<open>broadcasts_seq\<close> is the counter SQLite keeps for an \<open>AUTOINCREMENT\<close> key: the
  largest id the table has ever given out.
\<close>

record db =
  users :: "user_row list"
  broadcasts :: "broadcast_row list"
  broadcasts_seq :: int
  admins :: "admin_row list"

text \<open>The id an \<open>INSERT\<close> into \<open>broadcasts\<close> gets (\<open>cur.lastrowid\<close>).\<close>

definition lastrowid :: "db \<Rightarrow> int" where
  "lastrowid d = max (broadcasts_seq d) (foldr max (map b_id (broadcasts d)) 0) + 1"

text \<open>The row of a job, by id.\<close>

definition job :: "db \<Rightarrow> int \<Rightarrow> broadcast_row option" where
  "job d bid = find (\<lambda>r. b_id r = bid) (broadcasts d)"

subsection \<open>Admins: \<open>add_admin\<close>, \<open>remove_admin\<close>, \<open>is_admin\<close>\<close>

text \<open>
  \<open>INSERT OR REPLACE\<close> on the primary key \<open>user_id\<close>; \<open>added_by or 0\<close>; the
  timestamp \<open>int(time.time())\<close> is the argument \<open>now\<close>.
\<close>

definition add_admin :: "db \<Rightarrow> int \<Rightarrow> int option \<Rightarrow> int \<Rightarrow> db" where
  "add_admin d user_id added_by now =
     d\<lparr>admins := filter (\<lambda>r. a_user_id r \<noteq> user_id) (admins d) @
          [\<lparr>a_user_id = user_id,
            a_added_by = (case added_by of None \<Rightarrow> 0 | Some n \<Rightarrow> n),
            a_ts = now\<rparr>]\<rparr>"

definition remove_admin :: "db \<Rightarrow> int \<Rightarrow> db" where
  "remove_admin d user_id =
     d\<lparr>admins := filter (\<lambda>r. a_user_id r \<noteq> user_id) (admins d)\<rparr>"

text \<open>
  \<open>if OWNER_ID and user_id == OWNER_ID: return True\<close>, before the table is read.
\<close>

definition is_admin :: "db \<Rightarrow> int \<Rightarrow> bool" where
  "is_admin d user_id =
     (if (case OWNER_ID of None \<Rightarrow> False | Some ow \<Rightarrow> ow \<noteq> 0 \<and> user_id = ow) then True
      else list_ex (\<lambda>r. a_user_id r = user_id) (admins d))"

text \<open>The module's start-up step: \<open>if OWNER_ID: add_admin(OWNER_ID, added_by=0)\<close>.\<close>

definition ensure_owner :: "db \<Rightarrow> int \<Rightarrow> db" where
  "ensure_owner d now =
     (case OWNER_ID of
        None \<Rightarrow> d
      | Some ow \<Rightarrow> if ow \<noteq> 0 then add_admin d ow (Some 0) now else d)"

subsection \<open>The submission: \<open>require_owner\<close> and \<open>broadcast_cmd\<close>\<close>

text \<open>
  What the handler reads of the update: the effective user (its id), the message replied
  to (its text and caption), and \<open>context.args\<close>.
\<close>

record tg_user =
  tg_id :: int

record message =
  m_text :: "pystr option"
  m_caption :: "pystr option"

record update =
  effective_user :: "tg_user option"
  reply_to_message :: "message option"

text \<open>
  The replies the handler sends with \<open>update.message.reply_text\<close>:
  \<^item> \<open>NotAuthorized\<close>: "You are not authorized to use this command. Owner only."
  \<^item> \<open>Usage\<close>: "Usage: /broadcast your message here" and, on a second line,
    "Or reply to a message with /broadcast."
  \<^item> \<open>Started bid\<close>: "Broadcast started", the id \<open>bid\<close>, "Sending to users..."
\<close>

datatype reply = NotAuthorized | Usage | Started int

text \<open>
  The effects of a handler, in program order: a reply, and the start of the daemon thread
  \<open>threading.Thread(target=_do_broadcast, args=(bid, btext, user.id))\<close>.
\<close>

datatype cmd_effect = Reply reply | ThreadStart int pystr int

record cmd_result =
  res_db :: db
  res_effects :: "cmd_effect list"

text \<open>The body of \<open>broadcast_cmd\<close>, under the decorator.\<close>

definition broadcast_cmd_body :: "db \<Rightarrow> int \<Rightarrow> update \<Rightarrow> pystr list \<Rightarrow> cmd_result" where
  "broadcast_cmd_body d now upd args =
     (case effective_user upd of
        None \<Rightarrow> \<lparr>res_db = d, res_effects = []\<rparr>
      | Some user \<Rightarrow>
          (let chosen =
                 (case reply_to_message upd of
                    Some m \<Rightarrow>
                      if truthy (m_text m) \<or> truthy (m_caption m)
                      then Some (if truthy (m_text m) then the (m_text m)
                                 else if truthy (m_caption m) then the (m_caption m)
                                 else [])
                      else if args \<noteq> [] then Some (join [32] args)
                      else None
                  | None \<Rightarrow> if args \<noteq> [] then Some (join [32] args) else None)
           in case chosen of
                None \<Rightarrow> \<lparr>res_db = d, res_effects = [Reply Usage]\<rparr>
              | Some btext \<Rightarrow>
                  (let bid = lastrowid d;
                       d' = d\<lparr>broadcasts := broadcasts d @
                                 [\<lparr>b_id = bid, b_ts = now, b_from_user = tg_id user,
                                   b_text = take 4000 btext, b_sent_count = 0\<rparr>],
                               broadcasts_seq := bid\<rparr>
                   in \<lparr>res_db = d',
                       res_effects = [Reply (Started bid),
                                      ThreadStart bid btext (tg_id user)]\<rparr>)))"

text \<open>
  The decorator \<open>require_owner\<close>: \<open>if not user or user.id != OWNER_ID\<close>, answer
  and return; else call the function.
\<close>

definition require_owner ::
  "(db \<Rightarrow> int \<Rightarrow> update \<Rightarrow> pystr list \<Rightarrow> cmd_result) \<Rightarrow>
   db \<Rightarrow> int \<Rightarrow> update \<Rightarrow> pystr list \<Rightarrow> cmd_result" where
  "require_owner func d now upd args =
     (case effective_user upd of
        None \<Rightarrow> \<lparr>res_db = d, res_effects = [Reply NotAuthorized]\<rparr>
      | Some user \<Rightarrow>
          if Some (tg_id user) \<noteq> OWNER_ID
          then \<lparr>res_db = d, res_effects = [Reply NotAuthorized]\<rparr>
          else func d now upd args)"

definition broadcast_cmd :: "db \<Rightarrow> int \<Rightarrow> update \<Rightarrow> pystr list \<Rightarrow> cmd_result" where
  "broadcast_cmd = require_owner broadcast_cmd_body"

subsection \<open>The background run: \<open>_do_broadcast\<close>\<close>

text \<open>
  The outcome of one call of \<open>bot.send_message\<close>: it returns, or it raises an
  \<open>Exception\<close> with a cause.  The oracle \<open>send_message\<close> of the environment gives the
  outcome of the attempt number \<open>i\<close> of a run (from 0), to a chat, of a text.
  \<open>store_fault\<close> says whether a statement of the store raises, where, and with what
  cause.
\<close>

datatype send_result = Delivered | Raises pystr

datatype store_op = SnapshotRead | FinalizeWrite

text \<open>
  A statement of the store is a call \<open>cur.execute(...)\<close> followed, for a write, by
  \<open>DB.commit()\<close>, on the one connection \<open>DB\<close> that every handler and every run
  shares.  Either call can raise: \<open>ExecuteRaises\<close> before the statement has had any
  effect, \<open>CommitRaises\<close> after the statement has run on the connection.  (A read has
  no commit; a fault of a read ends the caller the same way, whichever it is.)
\<close>

datatype fault = ExecuteRaises pystr | CommitRaises pystr

fun cause_of :: "fault \<Rightarrow> pystr" where
  "cause_of (ExecuteRaises c) = c"
| "cause_of (CommitRaises c) = c"

record env =
  send_message :: "nat \<Rightarrow> int \<Rightarrow> pystr \<Rightarrow> send_result"
  store_fault :: "store_op \<Rightarrow> fault option"

text \<open>
  The events of a run, in program order:
  \<^item> \<open>Send u t\<close>: a call \<open>bot.send_message(chat_id=u, text=t, ...)\<close>;
  \<^item> \<open>LogWarning u e\<close>: \<open>logger.warning("Broadcast to %s failed: %s", u, e)\<close>;
  \<^item> \<open>Sleep s\<close>: \<open>time.sleep(s)\<close>;
  \<^item> \<open>LogInfo bid sent total\<close>:
    \<open>logger.info("Broadcast %s finished: sent %s/%s", bid, sent, total)\<close>.
\<close>

datatype event = Send int pystr | LogWarning int pystr | Sleep rat | LogInfo int int int

text \<open>The loop's variables: the counter \<open>sent\<close>, and the events so far.\<close>

record loop_state =
  sent :: int
  trace :: "event list"

text \<open>One iteration of the loop, for the recipient \<open>user_id\<close> at position \<open>i\<close>.\<close>

definition attempt :: "env \<Rightarrow> pystr \<Rightarrow> nat \<Rightarrow> int \<Rightarrow> loop_state \<Rightarrow> loop_state" where
  "attempt e btext i user_id st =
     (let st1 = st\<lparr>trace := trace st @ [Send user_id btext]\<rparr>;
          st2 = (case send_message e i user_id btext of
                   Delivered \<Rightarrow> st1\<lparr>sent := sent st1 + 1\<rparr>
                 | Raises cause \<Rightarrow> st1\<lparr>trace := trace st1 @ [LogWarning user_id cause]\<rparr>)
      in st2\<lparr>trace := trace st2 @ [Sleep BROADCAST_DELAY_SEC]\<rparr>)"

text \<open>\<open>for (user_id,) in rows: ...\<close>\<close>

fun deliver :: "env \<Rightarrow> pystr \<Rightarrow> nat \<Rightarrow> int list \<Rightarrow> loop_state \<Rightarrow> loop_state" where
  "deliver e btext i [] st = st"
| "deliver e btext i (user_id # rows) st =
     deliver e btext (Suc i) rows (attempt e btext i user_id st)"

text \<open>
  The result of the thread's function: the store as the shared connection shows it, the
  events, the exception that left the function, if one did, and whether the function
  has left a statement on the connection that is not committed (the next \<open>DB.commit()\<close>
  of any handler writes it with its own).
\<close>

record run_result =
  r_db :: db
  r_trace :: "event list"
  r_escaped :: "pystr option"
  r_pending :: bool

text \<open>
  \<open>UPDATE broadcasts SET sent_count = ? WHERE id = ?\<close>
\<close>

definition update_sent_count :: "db \<Rightarrow> int \<Rightarrow> int \<Rightarrow> db" where
  "update_sent_count d n bid =
     d\<lparr>broadcasts := map (\<lambda>r. if b_id r = bid then r\<lparr>b_sent_count := n\<rparr> else r)
                          (broadcasts d)\<rparr>"

text \<open>
  \<open>_do_broadcast(bid, text, from_user)\<close>.  The two statements of the store stand
  outside every \<open>try\<close>: when one raises, the exception leaves the function there.
  The final write is \<open>cur.execute("UPDATE ...")\<close> and then \<open>DB.commit()\<close>: when the
  first raises nothing has been written; when the second raises the update has run on
  the connection and stays there, uncommitted, and \<open>logger.info\<close> is not reached.
  The run is taken on one state of the store: what other handlers write between the
  snapshot and the final write is not part of this model, and neither is an exception
  of the transport that is no \<open>Exception\<close> (a \<open>KeyboardInterrupt\<close>, say), which the
  \<open>except\<close> clause would let through.
\<close>

definition do_broadcast :: "env \<Rightarrow> db \<Rightarrow> int \<Rightarrow> pystr \<Rightarrow> int \<Rightarrow> run_result" where
  "do_broadcast e d bid btext from_user =
     (case store_fault e SnapshotRead of
        Some f \<Rightarrow>
          \<lparr>r_db = d, r_trace = [], r_escaped = Some (cause_of f), r_pending = False\<rparr>
      | None \<Rightarrow>
          (let rows = map u_user_id (users d);
               total = int (length rows);
               st = deliver e btext 0 rows \<lparr>sent = 0, trace = []\<rparr>
           in case store_fault e FinalizeWrite of
                Some (ExecuteRaises cause) \<Rightarrow>
                  \<lparr>r_db = d, r_trace = trace st, r_escaped = Some cause, r_pending = False\<rparr>
              | Some (CommitRaises cause) \<Rightarrow>
                  \<lparr>r_db = update_sent_count d (sent st) bid, r_trace = trace st,
                   r_escaped = Some cause, r_pending = True\<rparr>
              | None \<Rightarrow>
                  \<lparr>r_db = update_sent_count d (sent st) bid,
                   r_trace = trace st @ [LogInfo bid (sent st) total],
                   r_escaped = None, r_pending = False\<rparr>))"

subsection \<open>The handler and the thread it starts\<close>




subsection \<open>Observing a run\<close>

text \<open>
  The state of the loop after its first \<open>k\<close> iterations (lemma \<open>deliver_split\<close> below:
  the run passes through it).
\<close>

definition loop_state_at :: "env \<Rightarrow> pystr \<Rightarrow> int list \<Rightarrow> nat \<Rightarrow> loop_state" where
  "loop_state_at e btext rows k = deliver e btext 0 (take k rows) \<lparr>sent = 0, trace = []\<rparr>"

text \<open>How many of the attempts on \<open>us\<close>, numbered from \<open>i\<close>, the transport accepts.\<close>

fun successes :: "env \<Rightarrow> pystr \<Rightarrow> nat \<Rightarrow> int list \<Rightarrow> nat" where
  "successes e btext i [] = 0"
| "successes e btext i (u # us) =
     (if send_message e i u btext = Delivered then 1 else 0) + successes e btext (Suc i) us"

fun is_send :: "event \<Rightarrow> bool" where
  "is_send (Send u t) = True"
| "is_send ev = False"

fun is_sleep :: "event \<Rightarrow> bool" where
  "is_sleep (Sleep s) = True"
| "is_sleep ev = False"

fun is_info :: "event \<Rightarrow> bool" where
  "is_info (LogInfo b s n) = True"
| "is_info ev = False"

text \<open>
  A monitor for pacing.  It reads the events with a flag: a delivery attempt has been
  made and no sleep has followed it yet.  A second attempt under the flag is a violation
  (\<open>None\<close>); else the result is the flag at the end.
\<close>

fun pace :: "event list \<Rightarrow> bool \<Rightarrow> bool option" where
  "pace [] p = Some p"
| "pace (Send u t # es) p = (if p then None else pace es True)"
| "pace (Sleep s # es) p = pace es False"
| "pace (ev # es) p = pace es p"

text \<open>
  The states of a job in the specification's data model.  The table \<open>broadcasts\<close> has no
  column for them.
\<close>

datatype job_status = Pending | Running | Completed

subsection \<open>Sample data\<close>

definition ex_user :: "int \<Rightarrow> user_row" where
  "ex_user n = \<lparr>u_user_id = n, u_username = [], u_first_name = [], u_last_name = [],
               u_lang_code = [], u_last_seen = 0\<rparr>"

definition ex_db :: db where
  "ex_db = \<lparr>users = [ex_user 1, ex_user 2, ex_user 3], broadcasts = [],
            broadcasts_seq = 0, admins = []\<rparr>"

text \<open>An update sent by the owner, as a reply to \<open>r\<close> if given.\<close>

definition owner_update :: "message option \<Rightarrow> update" where
  "owner_update r = \<lparr>effective_user = Some \<lparr>tg_id = 8116152355\<rparr>, reply_to_message = r\<rparr>"

text \<open>The store after the owner has sent \<open>/broadcast hi\<close>.\<close>

definition ex_submitted :: db where
  "ex_submitted = res_db (broadcast_cmd ex_db 1700000000 (owner_update None) [[104, 105]])"

definition env_all_ok :: env where
  "env_all_ok = \<lparr>send_message = (\<lambda>i u t. Delivered), store_fault = (\<lambda>op. None)\<rparr>"

definition env_second_fails :: env where
  "env_second_fails =
     \<lparr>send_message = (\<lambda>i u t. if i = 1 then Raises [98] else Delivered),
      store_fault = (\<lambda>op. None)\<rparr>"




text \<open>An update sent by the owner as a reply to a message with the text \<open>t\<close>.\<close>

definition reply_update :: "pystr \<Rightarrow> update" where
  "reply_update t = owner_update (Some \<lparr>m_text = Some t, m_caption = None\<rparr>)"

text \<open>A text of 4001 code points.\<close>

definition ex_long_text :: pystr where
  "ex_long_text = replicate 4001 97"

definition ex_db_no_users :: db where
  "ex_db_no_users = \<lparr>users = [], broadcasts = [], broadcasts_seq = 0, admins = []\<rparr>"

section \<open>Properties\<close>

subsection \<open>The loop\<close>

lemma sent_attempt:
  "sent (attempt e t i u st) = sent st + (if send_message e i u t = Delivered then 1 else 0)"
  by (simp add: attempt_def Let_def split: send_result.split)

lemma trace_attempt:
  "trace (attempt e t i u st) =
     trace st @ Send u t #
       (case send_message e i u t of Delivered \<Rightarrow> [] | Raises c \<Rightarrow> [LogWarning u c]) @
       [Sleep BROADCAST_DELAY_SEC]"
  by (simp add: attempt_def Let_def split: send_result.split)

lemma deliver_append:
  "deliver e t i (xs @ ys) st = deliver e t (i + length xs) ys (deliver e t i xs st)"
  by (induction xs arbitrary: i st) simp_all

lemma sent_deliver:
  "sent (deliver e t i us st) = sent st + int (successes e t i us)"
  by (induction us arbitrary: i st) (simp_all add: sent_attempt)

lemma successes_le: "successes e t i us \<le> length us"
  by (induction us arbitrary: i) (auto simp: le_SucI)

lemma successes_all:
  "(\<And>j. j < length us \<Longrightarrow> send_message e (i + j) (us ! j) t = Delivered) \<Longrightarrow>
   successes e t i us = length us"
proof (induction us arbitrary: i)
  case Nil
  then show ?case by simp
next
  case (Cons u us)
  have h: "send_message e i u t = Delivered" using Cons.prems [of 0] by simp
  have "successes e t (Suc i) us = length us"
  proof (rule Cons.IH)
    fix j assume "j < length us"
    then show "send_message e (Suc i + j) (us ! j) t = Delivered"
      using Cons.prems [of "Suc j"] by simp
  qed
  with h show ?case by simp
qed

lemma successes_one_fail:
  "k < length us \<Longrightarrow>
   (\<And>j. j < length us \<Longrightarrow> (send_message e (i + j) (us ! j) t = Delivered) = (j \<noteq> k)) \<Longrightarrow>
   Suc (successes e t i us) = length us"
proof (induction us arbitrary: i k)
  case Nil
  then show ?case by simp
next
  case (Cons u us)
  show ?case
  proof (cases k)
    case 0
    have h: "send_message e i u t \<noteq> Delivered" using Cons.prems(2) [of 0] 0 by simp
    have "successes e t (Suc i) us = length us"
    proof (rule successes_all)
      fix j assume "j < length us"
      then show "send_message e (Suc i + j) (us ! j) t = Delivered"
        using Cons.prems(2) [of "Suc j"] 0 by simp
    qed
    with h show ?thesis by simp
  next
    case (Suc k')
    have h: "send_message e i u t = Delivered" using Cons.prems(2) [of 0] Suc by simp
    have "Suc (successes e t (Suc i) us) = length us"
    proof (rule Cons.IH [of k'])
      show "k' < length us" using Cons.prems(1) Suc by simp
    next
      fix j assume "j < length us"
      then show "(send_message e (Suc i + j) (us ! j) t = Delivered) = (j \<noteq> k')"
        using Cons.prems(2) [of "Suc j"] Suc by simp
    qed
    with h show ?thesis by simp
  qed
qed

lemma sends_deliver:
  "filter is_send (trace (deliver e t i us st)) =
   filter is_send (trace st) @ map (\<lambda>u. Send u t) us"
  by (induction us arbitrary: i st) (simp_all add: trace_attempt split: send_result.split)

lemma sleeps_deliver:
  "filter is_sleep (trace (deliver e t i us st)) =
   filter is_sleep (trace st) @ replicate (length us) (Sleep BROADCAST_DELAY_SEC)"
  by (induction us arbitrary: i st)
     (simp_all add: trace_attempt replicate_append_same split: send_result.split)

lemma trace_deliver_mono: "set (trace st) \<subseteq> set (trace (deliver e t i us st))"
proof (induction us arbitrary: i st)
  case Nil
  then show ?case by simp
next
  case (Cons u us)
  have "set (trace st) \<subseteq> set (trace (attempt e t i u st))" by (auto simp: trace_attempt)
  also have "\<dots> \<subseteq> set (trace (deliver e t (Suc i) us (attempt e t i u st)))" by (rule Cons.IH)
  finally show ?case by simp
qed

lemma warning_deliver:
  "k < length us \<Longrightarrow> send_message e (i + k) (us ! k) t = Raises c \<Longrightarrow>
   LogWarning (us ! k) c \<in> set (trace (deliver e t i us st))"
proof (induction us arbitrary: i k st)
  case Nil
  then show ?case by simp
next
  case (Cons u us)
  show ?case
  proof (cases k)
    case 0
    with Cons.prems have "LogWarning u c \<in> set (trace (attempt e t i u st))"
      by (simp add: trace_attempt)
    then show ?thesis using trace_deliver_mono 0 by fastforce
  next
    case (Suc k')
    with Cons.prems have "LogWarning (us ! k') c \<in>
        set (trace (deliver e t (Suc i) us (attempt e t i u st)))"
      by (intro Cons.IH) simp_all
    then show ?thesis using Suc by simp
  qed
qed

lemma trace_deliver_all_ok:
  "(\<And>j. j < length us \<Longrightarrow> send_message e (i + j) (us ! j) t = Delivered) \<Longrightarrow>
   trace (deliver e t i us st) =
     trace st @ concat (map (\<lambda>u. [Send u t, Sleep BROADCAST_DELAY_SEC]) us)"
proof (induction us arbitrary: i st)
  case Nil
  then show ?case by simp
next
  case (Cons u us)
  have h: "send_message e i u t = Delivered" using Cons.prems [of 0] by simp
  have "trace (deliver e t (Suc i) us (attempt e t i u st)) =
      trace (attempt e t i u st) @ concat (map (\<lambda>u. [Send u t, Sleep BROADCAST_DELAY_SEC]) us)"
  proof (rule Cons.IH)
    fix j assume "j < length us"
    then show "send_message e (Suc i + j) (us ! j) t = Delivered"
      using Cons.prems [of "Suc j"] by simp
  qed
  with h show ?case by (simp add: trace_attempt)
qed

lemma deliver_split:
  "deliver e t 0 rows \<lparr>sent = 0, trace = []\<rparr> =
   deliver e t k (drop k rows) (loop_state_at e t rows k)" if "k \<le> length rows"
proof -
  have "deliver e t 0 (take k rows @ drop k rows) \<lparr>sent = 0, trace = []\<rparr> =
        deliver e t (0 + length (take k rows)) (drop k rows)
          (deliver e t 0 (take k rows) \<lparr>sent = 0, trace = []\<rparr>)"
    by (rule deliver_append)
  moreover have "length (take k rows) = k" using that by simp
  ultimately show ?thesis by (simp add: loop_state_at_def)
qed

lemma pace_append:
  "pace (xs @ ys) p = (case pace xs p of None \<Rightarrow> None | Some q \<Rightarrow> pace ys q)"
  by (induction xs p rule: pace.induct) simp_all

lemma pace_attempt:
  "pace (trace st) False = Some False \<Longrightarrow> pace (trace (attempt e t i u st)) False = Some False"
  by (simp add: trace_attempt pace_append split: send_result.split)

lemma pace_deliver:
  "pace (trace st) False = Some False \<Longrightarrow>
   pace (trace (deliver e t i us st)) False = Some False"
  by (induction us arbitrary: i st) (simp_all add: pace_attempt)

subsection \<open>The store and the run\<close>

lemma ex_submitted_eq:
  "ex_submitted = \<lparr>users = [ex_user 1, ex_user 2, ex_user 3],
      broadcasts = [\<lparr>b_id = 1, b_ts = 1700000000, b_from_user = 8116152355,
                     b_text = [104, 105], b_sent_count = 0\<rparr>],
      broadcasts_seq = 1, admins = []\<rparr>"
  by (simp add: ex_submitted_def broadcast_cmd_def require_owner_def broadcast_cmd_body_def
        owner_update_def OWNER_ID_def ex_db_def lastrowid_def Let_def)

lemma job_update_sent_count:
  "job (update_sent_count d n bid) bid = map_option (\<lambda>r. r\<lparr>b_sent_count := n\<rparr>) (job d bid)"
proof -
  have "find (\<lambda>r. b_id r = bid) (map (\<lambda>r. if b_id r = bid then r\<lparr>b_sent_count := n\<rparr> else r) rs)
      = map_option (\<lambda>r. r\<lparr>b_sent_count := n\<rparr>) (find (\<lambda>r. b_id r = bid) rs)" for rs
    by (induction rs) simp_all
  then show ?thesis by (simp add: job_def update_sent_count_def)
qed

lemma job_update_other:
  "bid' \<noteq> bid \<Longrightarrow> job (update_sent_count d n bid) bid' = job d bid'"
proof -
  assume ne: "bid' \<noteq> bid"
  have "find (\<lambda>r. b_id r = bid') (map (\<lambda>r. if b_id r = bid then r\<lparr>b_sent_count := n\<rparr> else r) rs)
      = find (\<lambda>r. b_id r = bid') rs" for rs
    using ne by (induction rs) auto
  then show ?thesis by (simp add: job_def update_sent_count_def)
qed

lemma do_broadcast_ok:
  "store_fault e SnapshotRead = None \<Longrightarrow> store_fault e FinalizeWrite = None \<Longrightarrow>
   do_broadcast e d bid t u =
     \<lparr>r_db = update_sent_count d
              (sent (deliver e t 0 (map u_user_id (users d)) \<lparr>sent = 0, trace = []\<rparr>)) bid,
      r_trace = trace (deliver e t 0 (map u_user_id (users d)) \<lparr>sent = 0, trace = []\<rparr>) @
        [LogInfo bid (sent (deliver e t 0 (map u_user_id (users d)) \<lparr>sent = 0, trace = []\<rparr>))
           (int (length (users d)))],
      r_escaped = None, r_pending = False\<rparr>"
  by (simp add: do_broadcast_def Let_def)

lemma sent_loop_state_at:
  "sent (loop_state_at e t rows k) = int (successes e t 0 (take k rows))"
  by (simp add: loop_state_at_def sent_deliver)

lemma successes_take_mono:
  "j \<le> k \<Longrightarrow> successes e t i (take j us) \<le> successes e t i (take k us)"
proof (induction us arbitrary: i j k)
  case Nil
  then show ?case by simp
next
  case (Cons u us)
  show ?case
  proof (cases j)
    case 0
    then show ?thesis by simp
  next
    case (Suc j')
    then obtain k' where k: "k = Suc k'" using Cons.prems by (cases k) simp_all
    with Suc Cons.prems have "j' \<le> k'" by simp
    from Cons.IH [OF this] show ?thesis using Suc k by simp
  qed
qed

subsection \<open>Claims\<close>

text \<open>
  C1.  A run over a snapshot of \<open>N\<close> recipients in which every delivery attempt succeeds
  (and the store answers).  The run ends without an exception and leaves nothing
  uncommitted.  Its events are, for each recipient of the snapshot in order, one delivery
  attempt and one sleep, and then the closing log line \<open>N/N\<close>: they are the events of the
  loop after \<open>N\<close> iterations, followed by that line.  After the first \<open>k\<close> recipients, for
  every \<open>k \<le> N\<close>, the loop has made exactly the \<open>k\<close> attempts on them and the counter is
  \<open>k\<close>, so it grows by one per recipient, and the run passes through that state.  The
  job's row is written with the counter's last value, which is \<open>N\<close>.
\<close>

theorem all_delivered_count:
  assumes snap: "store_fault e SnapshotRead = None"
      and fin: "store_fault e FinalizeWrite = None"
      and ok: "\<forall>i<length (users d). send_message e i (u_user_id (users d ! i)) btext = Delivered"
      and row: "job d bid = Some r"
  shows "r_escaped (do_broadcast e d bid btext from_user) = None \<and>
         r_pending (do_broadcast e d bid btext from_user) = False \<and>
         job (r_db (do_broadcast e d bid btext from_user)) bid =
           Some (r\<lparr>b_sent_count := int (length (users d))\<rparr>) \<and>
         job (r_db (do_broadcast e d bid btext from_user)) bid =
           Some (r\<lparr>b_sent_count :=
                     sent (loop_state_at e btext (map u_user_id (users d)) (length (users d)))\<rparr>) \<and>
         r_trace (do_broadcast e d bid btext from_user) =
           concat (map (\<lambda>u. [Send (u_user_id u) btext, Sleep BROADCAST_DELAY_SEC]) (users d)) @
           [LogInfo bid (int (length (users d))) (int (length (users d)))] \<and>
         r_trace (do_broadcast e d bid btext from_user) =
           trace (loop_state_at e btext (map u_user_id (users d)) (length (users d))) @
           [LogInfo bid
              (sent (loop_state_at e btext (map u_user_id (users d)) (length (users d))))
              (int (length (users d)))] \<and>
         (\<forall>k\<le>length (users d).
            sent (loop_state_at e btext (map u_user_id (users d)) k) = int k \<and>
            trace (loop_state_at e btext (map u_user_id (users d)) k) =
              concat (map (\<lambda>u. [Send (u_user_id u) btext, Sleep BROADCAST_DELAY_SEC])
                        (take k (users d))) \<and>
            deliver e btext 0 (map u_user_id (users d)) \<lparr>sent = 0, trace = []\<rparr> =
              deliver e btext k (drop k (map u_user_id (users d)))
                (loop_state_at e btext (map u_user_id (users d)) k)) \<and>
         last (r_trace (do_broadcast e d bid btext from_user)) =
           LogInfo bid (int (length (users d))) (int (length (users d)))"
proof -
  let ?rows = "map u_user_id (users d)"
  let ?N = "length (users d)"
  have okk: "send_message e (0 + j) (take k ?rows ! j) btext = Delivered"
    if "j < length (take k ?rows)" for j k
    using that ok by simp
  have cnt: "sent (loop_state_at e btext ?rows k) = int k" if "k \<le> ?N" for k
  proof -
    have "successes e btext 0 (take k ?rows) = length (take k ?rows)"
      by (rule successes_all) (rule okk)
    with that show ?thesis by (simp add: sent_loop_state_at)
  qed
  have trk: "trace (loop_state_at e btext ?rows k) =
      concat (map (\<lambda>u. [Send (u_user_id u) btext, Sleep BROADCAST_DELAY_SEC]) (take k (users d)))"
    for k
  proof -
    have "trace (loop_state_at e btext ?rows k) =
        trace \<lparr>sent = 0, trace = []\<rparr> @
        concat (map (\<lambda>u. [Send u btext, Sleep BROADCAST_DELAY_SEC]) (take k ?rows))"
      unfolding loop_state_at_def by (rule trace_deliver_all_ok) (rule okk)
    then show ?thesis by (simp add: take_map comp_def)
  qed
  have whole: "loop_state_at e btext ?rows ?N = deliver e btext 0 ?rows \<lparr>sent = 0, trace = []\<rparr>"
    by (simp add: loop_state_at_def)
  have split: "deliver e btext 0 ?rows \<lparr>sent = 0, trace = []\<rparr> =
      deliver e btext k (drop k ?rows) (loop_state_at e btext ?rows k)" if "k \<le> ?N" for k
    by (rule deliver_split) (use that in simp)
  have run: "do_broadcast e d bid btext from_user =
      \<lparr>r_db = update_sent_count d (sent (loop_state_at e btext ?rows ?N)) bid,
       r_trace = trace (loop_state_at e btext ?rows ?N) @
         [LogInfo bid (sent (loop_state_at e btext ?rows ?N)) (int ?N)],
       r_escaped = None, r_pending = False\<rparr>"
    unfolding whole by (rule do_broadcast_ok [OF snap fin])
  have cntN: "sent (loop_state_at e btext ?rows ?N) = int ?N" by (rule cnt) simp
  have trN: "trace (loop_state_at e btext ?rows ?N) =
      concat (map (\<lambda>u. [Send (u_user_id u) btext, Sleep BROADCAST_DELAY_SEC]) (users d))"
    using trk [of ?N] by simp
  have j: "job (r_db (do_broadcast e d bid btext from_user)) bid =
      Some (r\<lparr>b_sent_count := sent (loop_state_at e btext ?rows ?N)\<rparr>)"
    unfolding run using row by (simp add: job_update_sent_count)
  have t: "r_trace (do_broadcast e d bid btext from_user) =
      trace (loop_state_at e btext ?rows ?N) @
        [LogInfo bid (sent (loop_state_at e btext ?rows ?N)) (int ?N)]"
    unfolding run by simp
  have esc: "r_escaped (do_broadcast e d bid btext from_user) = None"
    and pen: "r_pending (do_broadcast e d bid btext from_user) = False"
    unfolding run by simp_all
  have steps: "\<forall>k\<le>?N.
      sent (loop_state_at e btext ?rows k) = int k \<and>
      trace (loop_state_at e btext ?rows k) =
        concat (map (\<lambda>u. [Send (u_user_id u) btext, Sleep BROADCAST_DELAY_SEC])
                  (take k (users d))) \<and>
      deliver e btext 0 ?rows \<lparr>sent = 0, trace = []\<rparr> =
        deliver e btext k (drop k ?rows) (loop_state_at e btext ?rows k)"
    using cnt trk split by blast
  have lst: "last (r_trace (do_broadcast e d bid btext from_user)) = LogInfo bid (int ?N) (int ?N)"
    unfolding t cntN by simp
  have j': "job (r_db (do_broadcast e d bid btext from_user)) bid =
      Some (r\<lparr>b_sent_count := int ?N\<rparr>)"
    using j unfolding cntN .
  have t': "r_trace (do_broadcast e d bid btext from_user) =
      concat (map (\<lambda>u. [Send (u_user_id u) btext, Sleep BROADCAST_DELAY_SEC]) (users d)) @
      [LogInfo bid (int ?N) (int ?N)]"
    using t unfolding cntN trN .
  from esc pen j' j t' t steps lst show ?thesis by blast
qed

theorem all_delivered_count_witness:
  "store_fault env_all_ok SnapshotRead = None \<and>
   store_fault env_all_ok FinalizeWrite = None \<and>
   send_message env_all_ok 0 1 [104, 105] = Delivered \<and>
   send_message env_all_ok 1 2 [104, 105] = Delivered \<and>
   send_message env_all_ok 2 3 [104, 105] = Delivered \<and>
   map u_user_id (users ex_submitted) = [1, 2, 3] \<and>
   job ex_submitted 1 =
     Some \<lparr>b_id = 1, b_ts = 1700000000, b_from_user = 8116152355,
           b_text = [104, 105], b_sent_count = 0\<rparr> \<and>
   r_escaped (do_broadcast env_all_ok ex_submitted 1 [104, 105] 8116152355) = None \<and>
   job (r_db (do_broadcast env_all_ok ex_submitted 1 [104, 105] 8116152355)) 1 =
     Some \<lparr>b_id = 1, b_ts = 1700000000, b_from_user = 8116152355,
           b_text = [104, 105], b_sent_count = 3\<rparr> \<and>
   r_trace (do_broadcast env_all_ok ex_submitted 1 [104, 105] 8116152355) =
     [Send 1 [104, 105], Sleep (12 / 100), Send 2 [104, 105], Sleep (12 / 100),
      Send 3 [104, 105], Sleep (12 / 100), LogInfo 1 3 3]"
proof -
  have h1: "store_fault env_all_ok SnapshotRead = None"
    and h2: "store_fault env_all_ok FinalizeWrite = None"
    by (simp_all add: env_all_ok_def)
  have h3: "\<forall>i<length (users ex_submitted).
      send_message env_all_ok i (u_user_id (users ex_submitted ! i)) [104, 105] = Delivered"
    by (simp add: env_all_ok_def)
  have h4: "job ex_submitted 1 =
     Some \<lparr>b_id = 1, b_ts = 1700000000, b_from_user = 8116152355,
           b_text = [104, 105], b_sent_count = 0\<rparr>"
    by (simp add: ex_submitted_eq job_def)
  have u: "map u_user_id (users ex_submitted) = [1, 2, 3]"
    by (simp add: ex_submitted_eq ex_user_def)
  have s: "send_message env_all_ok 0 1 [104, 105] = Delivered"
      "send_message env_all_ok 1 2 [104, 105] = Delivered"
      "send_message env_all_ok 2 3 [104, 105] = Delivered"
    by (simp_all add: env_all_ok_def)
  from all_delivered_count [OF h1 h2 h3 h4, of 8116152355]
  have c1: "r_escaped (do_broadcast env_all_ok ex_submitted 1 [104, 105] 8116152355) = None"
    and c2: "job (r_db (do_broadcast env_all_ok ex_submitted 1 [104, 105] 8116152355)) 1 =
       Some (\<lparr>b_id = 1, b_ts = 1700000000, b_from_user = 8116152355,
              b_text = [104, 105], b_sent_count = 0\<rparr>
             \<lparr>b_sent_count := int (length (users ex_submitted))\<rparr>)"
    and c3: "r_trace (do_broadcast env_all_ok ex_submitted 1 [104, 105] 8116152355) =
       concat (map (\<lambda>u. [Send (u_user_id u) [104, 105], Sleep BROADCAST_DELAY_SEC])
                 (users ex_submitted)) @
       [LogInfo 1 (int (length (users ex_submitted))) (int (length (users ex_submitted)))]"
    by blast+
  have l: "int (length (users ex_submitted)) = 3" by (simp add: ex_submitted_eq)
  have c: "concat (map (\<lambda>u. [Send (u_user_id u) [104, 105], Sleep BROADCAST_DELAY_SEC])
                 (users ex_submitted)) =
      [Send 1 [104, 105], Sleep (12 / 100), Send 2 [104, 105], Sleep (12 / 100),
       Send 3 [104, 105], Sleep (12 / 100)]"
    by (simp add: ex_submitted_eq ex_user_def BROADCAST_DELAY_SEC_def)
  show ?thesis
    using h1 h2 s u h4 c1 c2 [unfolded l] c3 [unfolded l c] by simp
qed

text \<open>
  C2.  A run over a snapshot of \<open>N\<close> recipients in which the attempt at position \<open>k\<close>
  (from 0) raises and every other attempt succeeds (and the store answers): the failure
  is logged with the recipient's id and the cause, every recipient of the snapshot is
  attempted, in order, the run ends without an exception, the job's row is written with
  \<open>sent_count = N - 1\<close>, and the last log line reports \<open>N - 1\<close> of \<open>N\<close>.
\<close>

theorem one_failure_isolated:
  assumes snap: "store_fault e SnapshotRead = None"
      and fin: "store_fault e FinalizeWrite = None"
      and k: "k < length (users d)"
      and bad: "send_message e k (u_user_id (users d ! k)) btext = Raises cause"
      and ok: "\<forall>i<length (users d). i \<noteq> k \<longrightarrow>
                 send_message e i (u_user_id (users d ! i)) btext = Delivered"
      and row: "job d bid = Some r"
  shows "r_escaped (do_broadcast e d bid btext from_user) = None \<and>
         job (r_db (do_broadcast e d bid btext from_user)) bid =
           Some (r\<lparr>b_sent_count := int (length (users d)) - 1\<rparr>) \<and>
         LogWarning (u_user_id (users d ! k)) cause \<in>
           set (r_trace (do_broadcast e d bid btext from_user)) \<and>
         filter is_send (r_trace (do_broadcast e d bid btext from_user)) =
           map (\<lambda>u. Send (u_user_id u) btext) (users d) \<and>
         last (r_trace (do_broadcast e d bid btext from_user)) =
           LogInfo bid (int (length (users d)) - 1) (int (length (users d)))"
proof -
  let ?rows = "map u_user_id (users d)"
  let ?st = "deliver e btext 0 ?rows \<lparr>sent = 0, trace = []\<rparr>"
  have k': "k < length ?rows" using k by simp
  have "Suc (successes e btext 0 ?rows) = length ?rows"
  proof (rule successes_one_fail [OF k'])
    fix j assume j: "j < length ?rows"
    show "(send_message e (0 + j) (?rows ! j) btext = Delivered) = (j \<noteq> k)"
    proof (cases "j = k")
      case True
      then show ?thesis using bad k by simp
    next
      case False
      then show ?thesis using ok j by simp
    qed
  qed
  then have cnt: "sent ?st = int (length (users d)) - 1"
    by (simp add: sent_deliver)
  have warn: "LogWarning (?rows ! k) cause \<in> set (trace ?st)"
    by (rule warning_deliver [OF k']) (use bad k in simp)
  have sends: "filter is_send (trace ?st) = map (\<lambda>u. Send u btext) ?rows"
    by (simp add: sends_deliver)
  show ?thesis
    using cnt warn sends row k
    by (simp add: do_broadcast_ok [OF snap fin] job_update_sent_count comp_def)
qed

theorem one_failure_isolated_witness:
  "store_fault env_second_fails SnapshotRead = None \<and>
   store_fault env_second_fails FinalizeWrite = None \<and>
   (1::nat) < length (users ex_submitted) \<and>
   send_message env_second_fails 1 (u_user_id (users ex_submitted ! 1)) [104, 105] = Raises [98] \<and>
   send_message env_second_fails 0 (u_user_id (users ex_submitted ! 0)) [104, 105] = Delivered \<and>
   send_message env_second_fails 2 (u_user_id (users ex_submitted ! 2)) [104, 105] = Delivered \<and>
   length (users ex_submitted) = 3 \<and>
   job ex_submitted 1 =
     Some \<lparr>b_id = 1, b_ts = 1700000000, b_from_user = 8116152355,
           b_text = [104, 105], b_sent_count = 0\<rparr> \<and>
   r_escaped (do_broadcast env_second_fails ex_submitted 1 [104, 105] 8116152355) = None \<and>
   job (r_db (do_broadcast env_second_fails ex_submitted 1 [104, 105] 8116152355)) 1 =
     Some \<lparr>b_id = 1, b_ts = 1700000000, b_from_user = 8116152355,
           b_text = [104, 105], b_sent_count = 2\<rparr> \<and>
   LogWarning 2 [98] \<in>
     set (r_trace (do_broadcast env_second_fails ex_submitted 1 [104, 105] 8116152355)) \<and>
   filter is_send (r_trace (do_broadcast env_second_fails ex_submitted 1 [104, 105] 8116152355)) =
     [Send 1 [104, 105], Send 2 [104, 105], Send 3 [104, 105]]"
proof -
  have h1: "store_fault env_second_fails SnapshotRead = None"
    and h2: "store_fault env_second_fails FinalizeWrite = None"
    by (simp_all add: env_second_fails_def)
  have h3: "(1::nat) < length (users ex_submitted)"
    by (simp add: ex_submitted_eq)
  have h4: "send_message env_second_fails 1 (u_user_id (users ex_submitted ! 1)) [104, 105] =
      Raises [98]"
    by (simp add: env_second_fails_def)
  have h5: "\<forall>i<length (users ex_submitted). i \<noteq> 1 \<longrightarrow>
      send_message env_second_fails i (u_user_id (users ex_submitted ! i)) [104, 105] = Delivered"
    by (simp add: env_second_fails_def)
  have h6: "job ex_submitted 1 =
     Some \<lparr>b_id = 1, b_ts = 1700000000, b_from_user = 8116152355,
           b_text = [104, 105], b_sent_count = 0\<rparr>"
    by (simp add: ex_submitted_eq job_def)
  show ?thesis
    using one_failure_isolated [OF h1 h2 h3 h4 h5 h6, of 8116152355] h1 h2 h3 h6
    by (simp add: ex_submitted_eq env_second_fails_def ex_user_def)
qed

text \<open>
  C5.  In every run the counter is 0 before the first recipient; it never decreases from
  one iteration to a later one; after \<open>k\<close> iterations it is between 0 and \<open>k\<close>, hence at
  most the size of the snapshot; the run passes through each of these states; and the
  value written to the job's row is the counter after the last iteration.
\<close>

theorem counter_bounded_monotone:
  assumes rows: "rows = map u_user_id (users d)"
  shows "sent (loop_state_at e btext rows 0) = 0 \<and>
         (\<forall>j k. j \<le> k \<and> k \<le> length rows \<longrightarrow>
            sent (loop_state_at e btext rows j) \<le> sent (loop_state_at e btext rows k)) \<and>
         (\<forall>k\<le>length rows.
            0 \<le> sent (loop_state_at e btext rows k) \<and>
            sent (loop_state_at e btext rows k) \<le> int k \<and>
            sent (loop_state_at e btext rows k) \<le> int (length rows) \<and>
            deliver e btext 0 rows \<lparr>sent = 0, trace = []\<rparr> =
              deliver e btext k (drop k rows) (loop_state_at e btext rows k)) \<and>
         (\<forall>r. store_fault e SnapshotRead = None \<and> store_fault e FinalizeWrite = None \<and>
              job d bid = Some r \<longrightarrow>
              job (r_db (do_broadcast e d bid btext from_user)) bid =
                Some (r\<lparr>b_sent_count := sent (loop_state_at e btext rows (length rows))\<rparr>))"
proof -
  have bound: "sent (loop_state_at e btext rows k) \<le> int k" if "k \<le> length rows" for k
  proof -
    have "successes e btext 0 (take k rows) \<le> length (take k rows)" by (rule successes_le)
    with that show ?thesis by (simp add: sent_loop_state_at)
  qed
  have mono: "sent (loop_state_at e btext rows j) \<le> sent (loop_state_at e btext rows k)"
    if "j \<le> k" for j k
    using successes_take_mono [OF that] by (simp add: sent_loop_state_at)
  have fin: "job (r_db (do_broadcast e d bid btext from_user)) bid =
      Some (r\<lparr>b_sent_count := sent (loop_state_at e btext rows (length rows))\<rparr>)"
    if "store_fault e SnapshotRead = None" "store_fault e FinalizeWrite = None"
       "job d bid = Some r" for r
    using that rows
    by (simp add: do_broadcast_ok job_update_sent_count loop_state_at_def)
  have bound2: "sent (loop_state_at e btext rows k) \<le> int (length rows)"
    if "k \<le> length rows" for k
    using bound [OF that] that by simp
  have nonneg: "0 \<le> sent (loop_state_at e btext rows k)" for k
    by (simp add: sent_loop_state_at)
  have start: "sent (loop_state_at e btext rows 0) = 0"
    by (simp add: loop_state_at_def)
  show ?thesis
    using start bound bound2 nonneg mono fin deliver_split [of _ rows e btext]
    by blast
qed

theorem counter_bounded_monotone_witness:
  "map u_user_id (users ex_submitted) = [1, 2, 3] \<and>
   sent (loop_state_at env_second_fails [104, 105] [1, 2, 3] 0) = 0 \<and>
   sent (loop_state_at env_second_fails [104, 105] [1, 2, 3] 1) = 1 \<and>
   sent (loop_state_at env_second_fails [104, 105] [1, 2, 3] 2) = 1 \<and>
   sent (loop_state_at env_second_fails [104, 105] [1, 2, 3] 3) = 2 \<and>
   sent (loop_state_at env_second_fails [104, 105] [1, 2, 3] 1) \<le>
     sent (loop_state_at env_second_fails [104, 105] [1, 2, 3] 2) \<and>
   sent (loop_state_at env_second_fails [104, 105] [1, 2, 3] 3) \<le> int (length [1, 2, 3 :: int]) \<and>
   job (r_db (do_broadcast env_second_fails ex_submitted 1 [104, 105] 8116152355)) 1 =
     Some \<lparr>b_id = 1, b_ts = 1700000000, b_from_user = 8116152355,
           b_text = [104, 105], b_sent_count = 2\<rparr>"
proof -
  have h: "[1, 2, 3] = map u_user_id (users ex_submitted)"
    by (simp add: ex_submitted_eq ex_user_def)
  have v: "sent (loop_state_at env_second_fails [104, 105] [1, 2, 3] 0) = 0"
      "sent (loop_state_at env_second_fails [104, 105] [1, 2, 3] 1) = 1"
      "sent (loop_state_at env_second_fails [104, 105] [1, 2, 3] 2) = 1"
      "sent (loop_state_at env_second_fails [104, 105] [1, 2, 3] 3) = 2"
    by (simp_all add: loop_state_at_def attempt_def env_second_fails_def Let_def
          numeral_2_eq_2 numeral_3_eq_3)
  have j: "job ex_submitted 1 =
     Some \<lparr>b_id = 1, b_ts = 1700000000, b_from_user = 8116152355,
           b_text = [104, 105], b_sent_count = 0\<rparr>"
    by (simp add: ex_submitted_eq job_def)
  have f: "store_fault env_second_fails SnapshotRead = None"
      "store_fault env_second_fails FinalizeWrite = None"
    by (simp_all add: env_second_fails_def)
  have l: "length [1, 2, 3 :: int] = 3" by simp
  from counter_bounded_monotone [OF h, of env_second_fails "[104, 105]" 1 8116152355] f j
  have e: "job (r_db (do_broadcast env_second_fails ex_submitted 1 [104, 105] 8116152355)) 1 =
     Some (\<lparr>b_id = 1, b_ts = 1700000000, b_from_user = 8116152355,
           b_text = [104, 105], b_sent_count = 0\<rparr>
       \<lparr>b_sent_count :=
          sent (loop_state_at env_second_fails [104, 105] [1, 2, 3] (length [1, 2, 3 :: int]))\<rparr>)"
    by blast
  have "job (r_db (do_broadcast env_second_fails ex_submitted 1 [104, 105] 8116152355)) 1 =
     Some \<lparr>b_id = 1, b_ts = 1700000000, b_from_user = 8116152355,
           b_text = [104, 105], b_sent_count = 2\<rparr>"
    unfolding e l v(4) by simp
  then show ?thesis
    using v h [symmetric] by simp
qed

text \<open>
  C6.  In every run whose snapshot is read, whatever the transport does at each attempt:
  the run sleeps once per recipient, each time for \<open>BROADCAST_DELAY_SEC\<close>, which is
  120 thousandths of a second; every recipient is attempted; each attempt is followed by
  a sleep before the next attempt and before the run ends (the monitor \<open>pace\<close> accepts
  the events and ends with no attempt waiting for its sleep); so a run over
  \<open>N \<ge> 2\<close> recipients sleeps at least \<open>N - 1\<close> times.
\<close>

theorem pacing_after_every_attempt:
  assumes snap: "store_fault e SnapshotRead = None"
  shows "filter is_sleep (r_trace (do_broadcast e d bid btext from_user)) =
           replicate (length (users d)) (Sleep BROADCAST_DELAY_SEC) \<and>
         BROADCAST_DELAY_SEC * 1000 = 120 \<and>
         filter is_send (r_trace (do_broadcast e d bid btext from_user)) =
           map (\<lambda>u. Send (u_user_id u) btext) (users d) \<and>
         pace (r_trace (do_broadcast e d bid btext from_user)) False = Some False \<and>
         (2 \<le> length (users d) \<longrightarrow>
            length (users d) - 1 \<le>
              length (filter is_sleep (r_trace (do_broadcast e d bid btext from_user))))"
proof -
  let ?st = "deliver e btext 0 (map u_user_id (users d)) \<lparr>sent = 0, trace = []\<rparr>"
  have sl: "filter is_sleep (trace ?st) = replicate (length (users d)) (Sleep BROADCAST_DELAY_SEC)"
    by (simp add: sleeps_deliver)
  have se: "filter is_send (trace ?st) = map (\<lambda>u. Send (u_user_id u) btext) (users d)"
    by (simp add: sends_deliver comp_def)
  have pa: "pace (trace ?st) False = Some False"
    by (rule pace_deliver) simp
  have tr: "r_trace (do_broadcast e d bid btext from_user) = trace ?st \<or>
        (\<exists>ev. is_info ev \<and> r_trace (do_broadcast e d bid btext from_user) = trace ?st @ [ev])"
    using snap by (simp add: do_broadcast_def Let_def split: option.split fault.split)
  have inf: "filter is_sleep (xs @ [ev]) = filter is_sleep xs \<and>
             filter is_send (xs @ [ev]) = filter is_send xs \<and>
             pace (xs @ [ev]) False = (case pace xs False of None \<Rightarrow> None | Some q \<Rightarrow> Some q)"
    if "is_info ev" for xs ev
    using that by (cases ev) (simp_all add: pace_append split: option.split)
  have d: "BROADCAST_DELAY_SEC * 1000 = 120" by (simp add: BROADCAST_DELAY_SEC_def)
  from tr show ?thesis
  proof
    assume "r_trace (do_broadcast e d bid btext from_user) = trace ?st"
    then show ?thesis using sl se pa d by simp
  next
    assume "\<exists>ev. is_info ev \<and> r_trace (do_broadcast e d bid btext from_user) = trace ?st @ [ev]"
    then obtain ev where ev: "is_info ev"
      and eq: "r_trace (do_broadcast e d bid btext from_user) = trace ?st @ [ev]" by blast
    show ?thesis unfolding eq using inf [OF ev, of "trace ?st"] sl se pa d by simp
  qed
qed

theorem pacing_after_every_attempt_witness:
  "store_fault env_second_fails SnapshotRead = None \<and>
   r_trace (do_broadcast env_second_fails ex_submitted 1 [104, 105] 8116152355) =
     [Send 1 [104, 105], Sleep (12 / 100),
      Send 2 [104, 105], LogWarning 2 [98], Sleep (12 / 100),
      Send 3 [104, 105], Sleep (12 / 100),
      LogInfo 1 2 3] \<and>
   filter is_sleep (r_trace (do_broadcast env_second_fails ex_submitted 1 [104, 105] 8116152355)) =
     [Sleep (12 / 100), Sleep (12 / 100), Sleep (12 / 100)] \<and>
   pace (r_trace (do_broadcast env_second_fails ex_submitted 1 [104, 105] 8116152355)) False =
     Some False"
proof -
  have h: "store_fault env_second_fails SnapshotRead = None"
    by (simp add: env_second_fails_def)
  have t: "r_trace (do_broadcast env_second_fails ex_submitted 1 [104, 105] 8116152355) =
     [Send 1 [104, 105], Sleep (12 / 100),
      Send 2 [104, 105], LogWarning 2 [98], Sleep (12 / 100),
      Send 3 [104, 105], Sleep (12 / 100),
      LogInfo 1 2 3]"
    by (simp add: do_broadcast_def ex_submitted_eq env_second_fails_def ex_user_def
          attempt_def Let_def BROADCAST_DELAY_SEC_def)
  have l: "replicate (length (users ex_submitted)) (Sleep BROADCAST_DELAY_SEC) =
     [Sleep (12 / 100), Sleep (12 / 100), Sleep (12 / 100)]"
    by (simp add: ex_submitted_eq BROADCAST_DELAY_SEC_def numeral_3_eq_3)
  from pacing_after_every_attempt [OF h, of ex_submitted 1 "[104, 105]" 8116152355]
  have "filter is_sleep (r_trace (do_broadcast env_second_fails ex_submitted 1 [104, 105] 8116152355)) =
     replicate (length (users ex_submitted)) (Sleep BROADCAST_DELAY_SEC)"
    and "pace (r_trace (do_broadcast env_second_fails ex_submitted 1 [104, 105] 8116152355)) False =
     Some False"
    by blast+
  then show ?thesis using h t l by simp
qed

text \<open>
  C9.  The owner is an admin in every state of the store: also after \<open>remove_admin\<close>
  has deleted the owner's row from the table \<open>admins\<close>, and after any other
  \<open>add_admin\<close> or \<open>remove_admin\<close>.
\<close>

theorem owner_always_admin:
  "is_admin d (the OWNER_ID) \<and>
   is_admin (remove_admin d (the OWNER_ID)) (the OWNER_ID) \<and>
   \<not> list_ex (\<lambda>r. a_user_id r = the OWNER_ID) (admins (remove_admin d (the OWNER_ID))) \<and>
   is_admin (add_admin d uid by now) (the OWNER_ID) \<and>
   is_admin (remove_admin d uid) (the OWNER_ID)"
  by (simp add: is_admin_def OWNER_ID_def remove_admin_def list_ex_iff)

theorem owner_always_admin_witness:
  "is_admin (ensure_owner ex_db 0) 8116152355 \<and>
   admins (remove_admin (ensure_owner ex_db 0) 8116152355) = [] \<and>
   is_admin (remove_admin (ensure_owner ex_db 0) 8116152355) 8116152355 \<and>
   \<not> is_admin (remove_admin (ensure_owner ex_db 0) 8116152355) 7"
proof -
  have o: "the OWNER_ID = 8116152355" by (simp add: OWNER_ID_def)
  from owner_always_admin [of "ensure_owner ex_db 0"]
  have "is_admin (ensure_owner ex_db 0) 8116152355"
    and "is_admin (remove_admin (ensure_owner ex_db 0) 8116152355) 8116152355"
    unfolding o by blast+
  moreover have "admins (remove_admin (ensure_owner ex_db 0) 8116152355) = []"
    by (simp add: remove_admin_def ensure_owner_def add_admin_def OWNER_ID_def ex_db_def)
  moreover have "\<not> is_admin (remove_admin (ensure_owner ex_db 0) 8116152355) 7"
    by (simp add: is_admin_def remove_admin_def ensure_owner_def add_admin_def OWNER_ID_def
          ex_db_def)
  ultimately show ?thesis by simp
qed

subsection \<open>The submission\<close>

lemma lastrowid_fresh: "r \<in> set (broadcasts d) \<Longrightarrow> b_id r < lastrowid d"
proof -
  have "x \<in> set xs \<Longrightarrow> x \<le> foldr max xs (0::int)" for x xs
    by (induction xs) auto
  then have "r \<in> set (broadcasts d) \<Longrightarrow> b_id r \<le> foldr max (map b_id (broadcasts d)) 0"
    by simp
  then show "r \<in> set (broadcasts d) \<Longrightarrow> b_id r < lastrowid d"
    by (simp add: lastrowid_def)
qed

lemma find_fresh_append:
  "(\<And>r. r \<in> set rs \<Longrightarrow> b_id r \<noteq> b_id new) \<Longrightarrow>
   find (\<lambda>r. b_id r = b_id new) (rs @ [new]) = Some new"
  by (induction rs) simp_all

text \<open>What an accepted submission does.\<close>

lemma broadcast_cmd_accepts:
  assumes "ThreadStart bid t uid \<in> set (res_effects (broadcast_cmd d now upd args))"
  shows "broadcast_cmd d now upd args =
           \<lparr>res_db = d\<lparr>broadcasts := broadcasts d @
                         [\<lparr>b_id = lastrowid d, b_ts = now, b_from_user = uid,
                           b_text = take 4000 t, b_sent_count = 0\<rparr>],
                       broadcasts_seq := lastrowid d\<rparr>,
            res_effects = [Reply (Started (lastrowid d)), ThreadStart (lastrowid d) t uid]\<rparr>
         \<and> bid = lastrowid d"
  using assms
  by (auto simp: broadcast_cmd_def require_owner_def broadcast_cmd_body_def Let_def
           split: option.splits if_splits)

lemma job_after_insert:
  "job (d\<lparr>broadcasts := broadcasts d @ [new], broadcasts_seq := s\<rparr>) (lastrowid d) = Some new"
  if "b_id new = lastrowid d"
proof -
  have "find (\<lambda>r. b_id r = b_id new) (broadcasts d @ [new]) = Some new"
    by (rule find_fresh_append) (use lastrowid_fresh [of _ d] that in force)
  then show ?thesis using that by (simp add: job_def)
qed

lemma job_fresh_None: "job d (lastrowid d) = None"
proof -
  have "\<not> (\<exists>r. r \<in> set (broadcasts d) \<and> b_id r = lastrowid d)"
    using lastrowid_fresh [of _ d] by force
  then show ?thesis by (simp add: job_def find_None_iff)
qed

lemma sends_do_broadcast:
  "store_fault e SnapshotRead = None \<Longrightarrow>
   filter is_send (r_trace (do_broadcast e d bid t u)) =
     map (\<lambda>r. Send (u_user_id r) t) (users d)"
  by (simp add: do_broadcast_def Let_def sends_deliver comp_def split: option.split fault.split)

lemma text_after_run:
  "map_option b_text (job (r_db (do_broadcast e d bid t u)) bid') = map_option b_text (job d bid')"
proof -
  have "map_option b_text (job (update_sent_count d n bid) bid') = map_option b_text (job d bid')"
    for n
  proof (cases "bid' = bid")
    case True
    then show ?thesis by (simp add: job_update_sent_count option.map_comp comp_def)
  next
    case False
    then show ?thesis by (simp add: job_update_other)
  qed
  then show ?thesis
    by (simp add: do_broadcast_def Let_def split: option.split fault.split)
qed

lemma ex_lastrowid: "lastrowid ex_db = 1"
  by (simp add: lastrowid_def ex_db_def)

lemma owner_accepts_reply:
  "t \<noteq> [] \<Longrightarrow>
   broadcast_cmd d now (reply_update t) args =
     \<lparr>res_db = d\<lparr>broadcasts := broadcasts d @
                   [\<lparr>b_id = lastrowid d, b_ts = now, b_from_user = 8116152355,
                     b_text = take 4000 t, b_sent_count = 0\<rparr>],
                 broadcasts_seq := lastrowid d\<rparr>,
      res_effects = [Reply (Started (lastrowid d)), ThreadStart (lastrowid d) t 8116152355]\<rparr>"
  by (simp add: broadcast_cmd_def require_owner_def broadcast_cmd_body_def reply_update_def
        owner_update_def OWNER_ID_def truthy_def Let_def)

subsection \<open>Claims about the submission and about failures\<close>

text \<open>
  C4, as the code has it.  Whenever \<open>broadcast_cmd\<close> starts the thread with the job id
  \<open>bid\<close> and the text \<open>t\<close>: the row of \<open>bid\<close> holds \<open>t\<close> cut to its first 4000 code
  points; every delivery attempt of a run of that thread, on any state of the store,
  carries \<open>t\<close> itself, uncut; the run leaves the stored text as it was; and the stored
  text is the delivered one exactly when \<open>t\<close> has at most 4000 code points.
\<close>

theorem stored_truncated_sent_whole:
  assumes "ThreadStart bid t uid \<in> set (res_effects (broadcast_cmd d now upd args))"
  shows "job (res_db (broadcast_cmd d now upd args)) bid =
           Some \<lparr>b_id = bid, b_ts = now, b_from_user = uid,
                 b_text = take 4000 t, b_sent_count = 0\<rparr> \<and>
         (\<forall>e d'. store_fault e SnapshotRead = None \<longrightarrow>
            filter is_send (r_trace (do_broadcast e d' bid t uid)) =
              map (\<lambda>r. Send (u_user_id r) t) (users d')) \<and>
         (\<forall>e. map_option b_text
                 (job (r_db (do_broadcast e (res_db (broadcast_cmd d now upd args)) bid t uid))
                    bid) = Some (take 4000 t)) \<and>
         ((take 4000 t = t) = (length t \<le> 4000))"
proof -
  note acc = broadcast_cmd_accepts [OF assms]
  have j: "job (res_db (broadcast_cmd d now upd args)) bid =
           Some \<lparr>b_id = bid, b_ts = now, b_from_user = uid,
                 b_text = take 4000 t, b_sent_count = 0\<rparr>"
    using acc by (simp add: job_after_insert)
  have "(take 4000 t = t) = (length t \<le> 4000)"
    by (metis take_all_iff)
  then show ?thesis
    using j by (simp add: sends_do_broadcast text_after_run)
qed

theorem stored_truncated_sent_whole_witness:
  "ThreadStart 1 [104, 105] 8116152355 \<in>
     set (res_effects (broadcast_cmd ex_db 1700000000 (reply_update [104, 105]) [])) \<and>
   job (res_db (broadcast_cmd ex_db 1700000000 (reply_update [104, 105]) [])) 1 =
     Some \<lparr>b_id = 1, b_ts = 1700000000, b_from_user = 8116152355,
           b_text = [104, 105], b_sent_count = 0\<rparr>"
proof -
  have h: "ThreadStart 1 [104, 105] 8116152355 \<in>
     set (res_effects (broadcast_cmd ex_db 1700000000 (reply_update [104, 105]) []))"
    by (simp add: owner_accepts_reply ex_lastrowid)
  from stored_truncated_sent_whole [OF h] h show ?thesis by simp
qed

text \<open>
  C4 as stated fails for a text longer than the cap: the owner replies with
  \<open>/broadcast\<close> to a message of 4001 code points; the row stores 4000 of them, and each
  of the three recipients is sent all 4001.
\<close>

theorem delivered_text_not_truncated_counterexample:
  "length ex_long_text = 4001 \<and>
   res_effects (broadcast_cmd ex_db 1700000000 (reply_update ex_long_text) []) =
     [Reply (Started 1), ThreadStart 1 ex_long_text 8116152355] \<and>
   map b_text (broadcasts (res_db (broadcast_cmd ex_db 1700000000 (reply_update ex_long_text) []))) =
     [replicate 4000 97] \<and>
   filter is_send
     (r_trace (do_broadcast env_all_ok
        (res_db (broadcast_cmd ex_db 1700000000 (reply_update ex_long_text) []))
        1 ex_long_text 8116152355)) =
     [Send 1 ex_long_text, Send 2 ex_long_text, Send 3 ex_long_text] \<and>
   ex_long_text \<noteq> replicate 4000 97"
proof -
  have ne: "ex_long_text \<noteq> []" by (simp add: ex_long_text_def)
  have l: "length ex_long_text = 4001" by (simp add: ex_long_text_def)
  have tk: "take 4000 ex_long_text = replicate 4000 97" by (simp add: ex_long_text_def)
  have d: "ex_long_text \<noteq> replicate 4000 97"
  proof
    assume "ex_long_text = replicate 4000 97"
    then have "length ex_long_text = length (replicate 4000 (97::nat))" by simp
    then show False by (simp add: ex_long_text_def)
  qed
  have s: "filter is_send
     (r_trace (do_broadcast env_all_ok
        (res_db (broadcast_cmd ex_db 1700000000 (reply_update ex_long_text) []))
        1 ex_long_text 8116152355)) =
     [Send 1 ex_long_text, Send 2 ex_long_text, Send 3 ex_long_text]"
    by (simp add: sends_do_broadcast env_all_ok_def owner_accepts_reply [OF ne] ex_db_def
          ex_user_def)
  show ?thesis
    using l d s by (simp add: owner_accepts_reply [OF ne] ex_lastrowid tk) (simp add: ex_db_def)
qed

text \<open>
  C8, as the code has it.  When the owner submits a payload, \<open>broadcast_cmd\<close> answers
  with the new job id and then starts the thread, in that order; the store it leaves has
  one more row in \<open>broadcasts\<close>, with that id, the submitter, the submitted payload cut
  to 4000 code points and \<open>sent_count = 0\<close>; the id was not in the table before, and no
  other table has changed.  The submitted payload is the text (else the caption) of the
  message replied to when that is not empty, and else the arguments joined by spaces.
  The row has no status.
\<close>

theorem submission_creates_record:
  assumes user: "effective_user upd = Some user"
      and owner: "Some (tg_id user) = OWNER_ID"
  shows "(\<forall>m. reply_to_message upd = Some m \<and> (truthy (m_text m) \<or> truthy (m_caption m)) \<longrightarrow>
            res_effects (broadcast_cmd d now upd args) =
              [Reply (Started (lastrowid d)),
               ThreadStart (lastrowid d)
                 (if truthy (m_text m) then the (m_text m) else the (m_caption m))
                 (tg_id user)] \<and>
            res_db (broadcast_cmd d now upd args) =
              d\<lparr>broadcasts := broadcasts d @
                    [\<lparr>b_id = lastrowid d, b_ts = now, b_from_user = tg_id user,
                      b_text = take 4000
                        (if truthy (m_text m) then the (m_text m) else the (m_caption m)),
                      b_sent_count = 0\<rparr>],
                 broadcasts_seq := lastrowid d\<rparr> \<and>
            job (res_db (broadcast_cmd d now upd args)) (lastrowid d) =
              Some \<lparr>b_id = lastrowid d, b_ts = now, b_from_user = tg_id user,
                    b_text = take 4000
                      (if truthy (m_text m) then the (m_text m) else the (m_caption m)),
                    b_sent_count = 0\<rparr>) \<and>
         ((\<forall>m. reply_to_message upd = Some m \<longrightarrow>
                \<not> truthy (m_text m) \<and> \<not> truthy (m_caption m)) \<and> args \<noteq> [] \<longrightarrow>
            res_effects (broadcast_cmd d now upd args) =
              [Reply (Started (lastrowid d)),
               ThreadStart (lastrowid d) (join [32] args) (tg_id user)] \<and>
            res_db (broadcast_cmd d now upd args) =
              d\<lparr>broadcasts := broadcasts d @
                    [\<lparr>b_id = lastrowid d, b_ts = now, b_from_user = tg_id user,
                      b_text = take 4000 (join [32] args), b_sent_count = 0\<rparr>],
                 broadcasts_seq := lastrowid d\<rparr> \<and>
            job (res_db (broadcast_cmd d now upd args)) (lastrowid d) =
              Some \<lparr>b_id = lastrowid d, b_ts = now, b_from_user = tg_id user,
                    b_text = take 4000 (join [32] args), b_sent_count = 0\<rparr>) \<and>
         job d (lastrowid d) = None"
proof -
  have acc: "res_effects (broadcast_cmd d now upd args) =
        [Reply (Started (lastrowid d)), ThreadStart (lastrowid d) p (tg_id user)] \<and>
      res_db (broadcast_cmd d now upd args) =
        d\<lparr>broadcasts := broadcasts d @
              [\<lparr>b_id = lastrowid d, b_ts = now, b_from_user = tg_id user,
                b_text = take 4000 p, b_sent_count = 0\<rparr>],
           broadcasts_seq := lastrowid d\<rparr> \<and>
      job (res_db (broadcast_cmd d now upd args)) (lastrowid d) =
        Some \<lparr>b_id = lastrowid d, b_ts = now, b_from_user = tg_id user,
              b_text = take 4000 p, b_sent_count = 0\<rparr>"
    if "ThreadStart (lastrowid d) p (tg_id user) \<in>
          set (res_effects (broadcast_cmd d now upd args))" for p
    using broadcast_cmd_accepts [OF that] by (simp add: job_after_insert)
  have a: "ThreadStart (lastrowid d)
             (if truthy (m_text m) then the (m_text m) else the (m_caption m)) (tg_id user)
           \<in> set (res_effects (broadcast_cmd d now upd args))"
    if "reply_to_message upd = Some m" "truthy (m_text m) \<or> truthy (m_caption m)" for m
    using that user owner
    by (auto simp: broadcast_cmd_def require_owner_def broadcast_cmd_body_def Let_def)
  have b: "ThreadStart (lastrowid d) (join [32] args) (tg_id user)
           \<in> set (res_effects (broadcast_cmd d now upd args))"
    if "\<forall>m. reply_to_message upd = Some m \<longrightarrow> \<not> truthy (m_text m) \<and> \<not> truthy (m_caption m)"
       "args \<noteq> []"
    using that user owner
    by (auto simp: broadcast_cmd_def require_owner_def broadcast_cmd_body_def Let_def
             split: option.splits)
  show ?thesis
    using acc [OF a] acc [OF b] job_fresh_None [of d] by blast
qed

theorem submission_creates_record_witness:
  "effective_user (owner_update None) = Some \<lparr>tg_id = 8116152355\<rparr> \<and>
   effective_user (reply_update [111, 107]) = Some \<lparr>tg_id = 8116152355\<rparr> \<and>
   Some (tg_id \<lparr>tg_id = 8116152355\<rparr>) = OWNER_ID \<and>
   reply_to_message (owner_update None) = None \<and>
   [[104, 105]] \<noteq> ([] :: pystr list) \<and>
   lastrowid ex_db = 1 \<and>
   res_effects (broadcast_cmd ex_db 1700000000 (owner_update None) [[104, 105]]) =
     [Reply (Started 1), ThreadStart 1 [104, 105] 8116152355] \<and>
   job (res_db (broadcast_cmd ex_db 1700000000 (owner_update None) [[104, 105]])) 1 =
     Some \<lparr>b_id = 1, b_ts = 1700000000, b_from_user = 8116152355,
           b_text = [104, 105], b_sent_count = 0\<rparr> \<and>
   job ex_db 1 = None \<and>
   reply_to_message (reply_update [111, 107]) =
     Some \<lparr>m_text = Some [111, 107], m_caption = None\<rparr> \<and>
   truthy (Some [111, 107]) \<and>
   res_effects (broadcast_cmd ex_db 1700000000 (reply_update [111, 107]) [[104, 105]]) =
     [Reply (Started 1), ThreadStart 1 [111, 107] 8116152355] \<and>
   job (res_db (broadcast_cmd ex_db 1700000000 (reply_update [111, 107]) [[104, 105]])) 1 =
     Some \<lparr>b_id = 1, b_ts = 1700000000, b_from_user = 8116152355,
           b_text = [111, 107], b_sent_count = 0\<rparr>"
proof -
  have u1: "effective_user (owner_update None) = Some \<lparr>tg_id = 8116152355\<rparr>"
    and u2: "effective_user (reply_update [111, 107]) = Some \<lparr>tg_id = 8116152355\<rparr>"
    by (simp_all add: owner_update_def reply_update_def)
  have o: "Some (tg_id \<lparr>tg_id = 8116152355\<rparr>) = OWNER_ID"
    by (simp add: OWNER_ID_def)
  have r1: "reply_to_message (owner_update None) = None"
    and r2: "reply_to_message (reply_update [111, 107]) =
      Some \<lparr>m_text = Some [111, 107], m_caption = None\<rparr>"
    by (simp_all add: owner_update_def reply_update_def)
  have t: "truthy (Some [111, 107])" by (simp add: truthy_def)
  have t': "truthy (m_text \<lparr>m_text = Some [111, 107], m_caption = None\<rparr>)"
    using t by simp
  have n: "[[104, 105]] \<noteq> ([] :: pystr list)" by simp
  have ant: "(\<forall>m. reply_to_message (owner_update None) = Some m \<longrightarrow>
                 \<not> truthy (m_text m) \<and> \<not> truthy (m_caption m)) \<and>
             [[104, 105]] \<noteq> ([] :: pystr list)"
    using r1 by simp
  from submission_creates_record [OF u1 o, of ex_db 1700000000 "[[104, 105]]"] ant
  have a1: "res_effects (broadcast_cmd ex_db 1700000000 (owner_update None) [[104, 105]]) =
       [Reply (Started (lastrowid ex_db)),
        ThreadStart (lastrowid ex_db) (join [32] [[104, 105]])
          (tg_id \<lparr>tg_id = 8116152355\<rparr>)]"
    and a2: "job (res_db (broadcast_cmd ex_db 1700000000 (owner_update None) [[104, 105]]))
         (lastrowid ex_db) =
       Some \<lparr>b_id = lastrowid ex_db, b_ts = 1700000000,
             b_from_user = tg_id \<lparr>tg_id = 8116152355\<rparr>,
             b_text = take 4000 (join [32] [[104, 105]]), b_sent_count = 0\<rparr>"
    and a3: "job ex_db (lastrowid ex_db) = None"
    by blast+
  from submission_creates_record [OF u2 o, of ex_db 1700000000 "[[104, 105]]"] r2 t'
  have b1: "res_effects (broadcast_cmd ex_db 1700000000 (reply_update [111, 107]) [[104, 105]]) =
       [Reply (Started (lastrowid ex_db)),
        ThreadStart (lastrowid ex_db)
          (if truthy (m_text \<lparr>m_text = Some [111, 107], m_caption = None\<rparr>)
           then the (m_text \<lparr>m_text = Some [111, 107], m_caption = None\<rparr>)
           else the (m_caption \<lparr>m_text = Some [111, 107], m_caption = None\<rparr>))
          (tg_id \<lparr>tg_id = 8116152355\<rparr>)]"
    and b2: "job (res_db (broadcast_cmd ex_db 1700000000 (reply_update [111, 107]) [[104, 105]]))
         (lastrowid ex_db) =
       Some \<lparr>b_id = lastrowid ex_db, b_ts = 1700000000,
             b_from_user = tg_id \<lparr>tg_id = 8116152355\<rparr>,
             b_text = take 4000
               (if truthy (m_text \<lparr>m_text = Some [111, 107], m_caption = None\<rparr>)
                then the (m_text \<lparr>m_text = Some [111, 107], m_caption = None\<rparr>)
                else the (m_caption \<lparr>m_text = Some [111, 107], m_caption = None\<rparr>)),
             b_sent_count = 0\<rparr>"
    by blast+
  show ?thesis
    using u1 u2 o r1 r2 t n a1 a2 a3 b1 b2
    by (simp add: ex_lastrowid truthy_def)
qed

text \<open>
  C8 as stated asks for a record with status pending.  The row carries none: with no
  known user, the row of a job just submitted and the row of the same job after its run
  has ended are equal, so no reading of the row gives pending for the first and
  completed for the second.
\<close>

theorem no_status_recorded_counterexample:
  "res_effects (broadcast_cmd ex_db_no_users 1700000000 (owner_update None) [[104, 105]]) =
     [Reply (Started 1), ThreadStart 1 [104, 105] 8116152355] \<and>
   job (res_db (broadcast_cmd ex_db_no_users 1700000000 (owner_update None) [[104, 105]])) 1 =
     Some \<lparr>b_id = 1, b_ts = 1700000000, b_from_user = 8116152355,
           b_text = [104, 105], b_sent_count = 0\<rparr> \<and>
   do_broadcast env_all_ok
     (res_db (broadcast_cmd ex_db_no_users 1700000000 (owner_update None) [[104, 105]]))
     1 [104, 105] 8116152355 =
     \<lparr>r_db = res_db (broadcast_cmd ex_db_no_users 1700000000 (owner_update None) [[104, 105]]),
      r_trace = [LogInfo 1 0 0], r_escaped = None, r_pending = False\<rparr> \<and>
   \<not> (\<exists>status :: broadcast_row \<Rightarrow> job_status.
        map_option status
          (job (res_db (broadcast_cmd ex_db_no_users 1700000000 (owner_update None) [[104, 105]]))
             1) = Some Pending \<and>
        map_option status
          (job (r_db (do_broadcast env_all_ok
             (res_db (broadcast_cmd ex_db_no_users 1700000000 (owner_update None) [[104, 105]]))
             1 [104, 105] 8116152355)) 1) = Some Completed)"
proof -
  have s: "broadcast_cmd ex_db_no_users 1700000000 (owner_update None) [[104, 105]] =
      \<lparr>res_db = \<lparr>users = [],
          broadcasts = [\<lparr>b_id = 1, b_ts = 1700000000, b_from_user = 8116152355,
                         b_text = [104, 105], b_sent_count = 0\<rparr>],
          broadcasts_seq = 1, admins = []\<rparr>,
       res_effects = [Reply (Started 1), ThreadStart 1 [104, 105] 8116152355]\<rparr>"
    by (simp add: broadcast_cmd_def require_owner_def broadcast_cmd_body_def owner_update_def
          OWNER_ID_def ex_db_no_users_def lastrowid_def Let_def)
  show ?thesis
    unfolding s
    by (simp add: do_broadcast_def env_all_ok_def update_sent_count_def job_def Let_def)
qed

text \<open>
  C10.  For a submission by the owner: when the message replied to has a non-empty text
  or caption, the payload is that text (the caption when the text is missing or empty),
  it is what the row stores (cut to 4000) and what the thread gets, and the outcome is
  the same as with no arguments at all; when there is no such replied message and there
  are arguments, the payload is the arguments joined by single spaces.
\<close>

theorem reply_text_before_args:
  assumes user: "effective_user upd = Some user"
      and owner: "Some (tg_id user) = OWNER_ID"
  shows "(\<forall>m. reply_to_message upd = Some m \<and> (truthy (m_text m) \<or> truthy (m_caption m)) \<longrightarrow>
            res_effects (broadcast_cmd d now upd args) =
              [Reply (Started (lastrowid d)),
               ThreadStart (lastrowid d)
                 (if truthy (m_text m) then the (m_text m) else the (m_caption m))
                 (tg_id user)] \<and>
            map_option b_text (job (res_db (broadcast_cmd d now upd args)) (lastrowid d)) =
              Some (take 4000 (if truthy (m_text m) then the (m_text m) else the (m_caption m))) \<and>
            broadcast_cmd d now upd args = broadcast_cmd d now upd []) \<and>
         ((\<forall>m. reply_to_message upd = Some m \<longrightarrow>
                \<not> truthy (m_text m) \<and> \<not> truthy (m_caption m)) \<and> args \<noteq> [] \<longrightarrow>
            res_effects (broadcast_cmd d now upd args) =
              [Reply (Started (lastrowid d)),
               ThreadStart (lastrowid d) (join [32] args) (tg_id user)] \<and>
            map_option b_text (job (res_db (broadcast_cmd d now upd args)) (lastrowid d)) =
              Some (take 4000 (join [32] args)))"
proof -
  have a: "res_effects (broadcast_cmd d now upd args) =
              [Reply (Started (lastrowid d)),
               ThreadStart (lastrowid d)
                 (if truthy (m_text m) then the (m_text m) else the (m_caption m))
                 (tg_id user)] \<and>
           broadcast_cmd d now upd args = broadcast_cmd d now upd []"
    if "reply_to_message upd = Some m" "truthy (m_text m) \<or> truthy (m_caption m)" for m
    using that user owner
    by (auto simp: broadcast_cmd_def require_owner_def broadcast_cmd_body_def Let_def)
  have b: "res_effects (broadcast_cmd d now upd args) =
              [Reply (Started (lastrowid d)),
               ThreadStart (lastrowid d) (join [32] args) (tg_id user)]"
    if "\<forall>m. reply_to_message upd = Some m \<longrightarrow> \<not> truthy (m_text m) \<and> \<not> truthy (m_caption m)"
       "args \<noteq> []"
    using that user owner
    by (auto simp: broadcast_cmd_def require_owner_def broadcast_cmd_body_def Let_def
             split: option.splits)
  have c: "map_option b_text (job (res_db (broadcast_cmd d now upd args)) (lastrowid d)) =
             Some (take 4000 t)"
    if "res_effects (broadcast_cmd d now upd args) =
          [Reply (Started (lastrowid d)), ThreadStart (lastrowid d) t (tg_id user)]" for t
  proof -
    from that have "ThreadStart (lastrowid d) t (tg_id user) \<in>
        set (res_effects (broadcast_cmd d now upd args))" by simp
    from broadcast_cmd_accepts [OF this] show ?thesis by (simp add: job_after_insert)
  qed
  show ?thesis
    using a b c by blast
qed

theorem reply_text_before_args_witness:
  "effective_user (reply_update [104, 105]) = Some \<lparr>tg_id = 8116152355\<rparr> \<and>
   effective_user (owner_update None) = Some \<lparr>tg_id = 8116152355\<rparr> \<and>
   Some (tg_id \<lparr>tg_id = 8116152355\<rparr>) = OWNER_ID \<and>
   reply_to_message (reply_update [104, 105]) = Some \<lparr>m_text = Some [104, 105], m_caption = None\<rparr> \<and>
   truthy (m_text \<lparr>m_text = Some [104, 105], m_caption = None\<rparr>) \<and>
   res_effects (broadcast_cmd ex_db 1700000000 (reply_update [104, 105]) [[111], [107]]) =
     [Reply (Started 1), ThreadStart 1 [104, 105] 8116152355] \<and>
   reply_to_message (owner_update None) = None \<and>
   res_effects (broadcast_cmd ex_db 1700000000 (owner_update None) [[111], [107]]) =
     [Reply (Started 1), ThreadStart 1 [111, 32, 107] 8116152355]"
proof -
  have u1: "effective_user (reply_update [104, 105]) = Some \<lparr>tg_id = 8116152355\<rparr>"
    and u2: "effective_user (owner_update None) = Some \<lparr>tg_id = 8116152355\<rparr>"
    by (simp_all add: reply_update_def owner_update_def)
  have o: "Some (tg_id \<lparr>tg_id = 8116152355\<rparr>) = OWNER_ID"
    by (simp add: OWNER_ID_def)
  have r1: "reply_to_message (reply_update [104, 105]) =
      Some \<lparr>m_text = Some [104, 105], m_caption = None\<rparr>"
    and r2: "reply_to_message (owner_update None) = None"
    by (simp_all add: reply_update_def owner_update_def)
  have t: "truthy (m_text \<lparr>m_text = Some [104, 105], m_caption = None\<rparr>)"
    by (simp add: truthy_def)
  from reply_text_before_args [OF u1 o, of ex_db 1700000000 "[[111], [107]]"] r1 t
  have "res_effects (broadcast_cmd ex_db 1700000000 (reply_update [104, 105]) [[111], [107]]) =
     [Reply (Started (lastrowid ex_db)),
      ThreadStart (lastrowid ex_db)
        (if truthy (m_text \<lparr>m_text = Some [104, 105], m_caption = None\<rparr>)
         then the (m_text \<lparr>m_text = Some [104, 105], m_caption = None\<rparr>)
         else the (m_caption \<lparr>m_text = Some [104, 105], m_caption = None\<rparr>))
        (tg_id \<lparr>tg_id = 8116152355\<rparr>)]"
    by blast
  then have e1:
    "res_effects (broadcast_cmd ex_db 1700000000 (reply_update [104, 105]) [[111], [107]]) =
     [Reply (Started 1), ThreadStart 1 [104, 105] 8116152355]"
    by (simp add: ex_lastrowid truthy_def)
  have n: "[[111], [107]] \<noteq> ([] :: pystr list)" by simp
  from reply_text_before_args [OF u2 o, of ex_db 1700000000 "[[111], [107]]"] r2 n
  have "res_effects (broadcast_cmd ex_db 1700000000 (owner_update None) [[111], [107]]) =
     [Reply (Started (lastrowid ex_db)),
      ThreadStart (lastrowid ex_db) (join [32] [[111], [107]]) (tg_id \<lparr>tg_id = 8116152355\<rparr>)]"
    by simp
  then have e2:
    "res_effects (broadcast_cmd ex_db 1700000000 (owner_update None) [[111], [107]]) =
     [Reply (Started 1), ThreadStart 1 [111, 32, 107] 8116152355]"
    by (simp add: ex_lastrowid)
  show ?thesis using u1 u2 o r1 r2 t e1 e2 by simp
qed

text \<open>
  C3, as the code has it.  When a submission has no payload (the message replied to, if
  any, has neither a non-empty text nor a non-empty caption, and there are no command
  arguments), the store is left as it was, no thread is started, and the owner is
  answered with the usage text.
\<close>

theorem no_payload_no_job:
  assumes nothing: "\<forall>m. reply_to_message upd = Some m \<longrightarrow>
                      \<not> truthy (m_text m) \<and> \<not> truthy (m_caption m)"
      and noargs: "args = []"
  shows "res_db (broadcast_cmd d now upd args) = d \<and>
         (\<forall>b t u. ThreadStart b t u \<notin> set (res_effects (broadcast_cmd d now upd args))) \<and>
         (\<forall>user. effective_user upd = Some user \<and> Some (tg_id user) = OWNER_ID \<longrightarrow>
            res_effects (broadcast_cmd d now upd args) = [Reply Usage])"
  using assms
  by (auto simp: broadcast_cmd_def require_owner_def broadcast_cmd_body_def Let_def
           split: option.splits)

theorem no_payload_no_job_witness:
  "reply_to_message (reply_update []) = Some \<lparr>m_text = Some [], m_caption = None\<rparr> \<and>
   \<not> truthy (Some []) \<and> \<not> truthy None \<and>
   effective_user (reply_update []) = Some \<lparr>tg_id = 8116152355\<rparr> \<and>
   Some (tg_id \<lparr>tg_id = 8116152355\<rparr>) = OWNER_ID \<and>
   res_db (broadcast_cmd ex_db 1700000000 (reply_update []) []) = ex_db \<and>
   res_effects (broadcast_cmd ex_db 1700000000 (reply_update []) []) = [Reply Usage]"
proof -
  have r: "reply_to_message (reply_update []) = Some \<lparr>m_text = Some [], m_caption = None\<rparr>"
    and u: "effective_user (reply_update []) = Some \<lparr>tg_id = 8116152355\<rparr>"
    by (simp_all add: reply_update_def owner_update_def)
  have t: "\<not> truthy (Some [])" "\<not> truthy None" by (simp_all add: truthy_def)
  have o: "Some (tg_id \<lparr>tg_id = 8116152355\<rparr>) = OWNER_ID" by (simp add: OWNER_ID_def)
  have h: "\<forall>m. reply_to_message (reply_update []) = Some m \<longrightarrow>
             \<not> truthy (m_text m) \<and> \<not> truthy (m_caption m)"
    using r t by simp
  from no_payload_no_job [OF h refl, of ex_db 1700000000] u o
  have "res_db (broadcast_cmd ex_db 1700000000 (reply_update []) []) = ex_db"
    and "res_effects (broadcast_cmd ex_db 1700000000 (reply_update []) []) = [Reply Usage]"
    by blast+
  then show ?thesis using r u t o by simp
qed

text \<open>
  C3 as stated fails for a payload of white space: the code tests that the text is not
  empty and never trims it.  The owner replies with \<open>/broadcast\<close> to a message whose
  text is one space; a row is inserted and the thread is started.
\<close>

theorem blank_reply_accepted_counterexample:
  "py_strip [32] = [] \<and>
   broadcasts ex_db = [] \<and>
   broadcasts (res_db (broadcast_cmd ex_db 1700000000 (reply_update [32]) [])) =
     [\<lparr>b_id = 1, b_ts = 1700000000, b_from_user = 8116152355,
       b_text = [32], b_sent_count = 0\<rparr>] \<and>
   res_effects (broadcast_cmd ex_db 1700000000 (reply_update [32]) []) =
     [Reply (Started 1), ThreadStart 1 [32] 8116152355]"
  by (simp add: owner_accepts_reply ex_lastrowid py_strip_def py_isspace_def) (simp add: ex_db_def)




end
